theory Spec2Isabelle
  imports Main
begin

unbundle bit_operations_syntax

section \<open>Stable identifiers: \<open>make_id\<close>\<close>

subsection \<open>SHA-1 on byte strings\<close>

text \<open>
  \<open>make_id\<close> feeds its parts to \<open>hashlib.sha1\<close> and keeps the first 16 hex digits.
  SHA-1 (FIPS 180) is written out here on 32-bit words, held as naturals below \<open>2 ^ 32\<close>
  with the wrap-around explicit. A Python \<open>str\<close> is modelled by the bytes of its UTF-8
  encoding, so \<open>.encode('utf-8')\<close> is the identity on the model.
\<close>

type_synonym u32 = nat

definition add32 :: "u32 \<Rightarrow> u32 \<Rightarrow> u32" where
  "add32 x y = (x + y) mod 2 ^ 32"

definition not32 :: "u32 \<Rightarrow> u32" where
  "not32 x = 2 ^ 32 - 1 - x mod 2 ^ 32"

definition rotl :: "nat \<Rightarrow> u32 \<Rightarrow> u32" where
  "rotl n x = ((x * 2 ^ n) mod 2 ^ 32) OR (x div 2 ^ (32 - n))"

text \<open>Padding: the byte 0x80, zeros up to 56 modulo 64, then the bit length in 8 bytes.\<close>

definition sha1_pad :: "nat list \<Rightarrow> nat list" where
  "sha1_pad m = (let l = length m; k = (119 - l mod 64) mod 64 in
     m @ [128] @ replicate k 0 @
     map (\<lambda>i. ((8 * l) div 2 ^ i) mod 256) [56, 48, 40, 32, 24, 16, 8, 0])"

fun be_words :: "nat list \<Rightarrow> u32 list" where
  "be_words (a # b # c # d # r) = (((a * 256 + b) * 256 + c) * 256 + d) # be_words r"
| "be_words _ = []"

function blocks :: "u32 list \<Rightarrow> u32 list list" where
  "blocks ws = (if ws = [] then [] else take 16 ws # blocks (drop 16 ws))"
  by pat_completeness auto
termination
  by (relation "measure length") auto

declare blocks.simps [simp del]

type_synonym hst = "u32 \<times> u32 \<times> u32 \<times> u32 \<times> u32"

definition ch :: "u32 \<Rightarrow> u32 \<Rightarrow> u32 \<Rightarrow> u32" where
  "ch b c d = (b AND c) OR (not32 b AND d)"

definition parity :: "u32 \<Rightarrow> u32 \<Rightarrow> u32 \<Rightarrow> u32" where
  "parity b c d = b XOR c XOR d"

definition maj :: "u32 \<Rightarrow> u32 \<Rightarrow> u32 \<Rightarrow> u32" where
  "maj b c d = (b AND c) OR (b AND d) OR (c AND d)"

definition fk :: "nat \<Rightarrow> u32 \<Rightarrow> u32 \<Rightarrow> u32 \<Rightarrow> u32" where
  "fk t b c d =
     (if t < 20 then ch b c d + 0x5A827999
      else if t < 40 then parity b c d + 0x6ED9EBA1
      else if t < 60 then maj b c d + 0x8F1BBCDC
      else parity b c d + 0xCA62C1D6)"

text \<open>
  The 80 rounds over one block. \<open>w\<close> is a window of 16 schedule words whose head is
  the word of round \<open>t\<close>; each round appends the word 16 places ahead.
\<close>

function rounds :: "nat \<Rightarrow> u32 list \<Rightarrow> hst \<Rightarrow> hst" where
  "rounds t w (a, b, c, d, e) =
     (if t < 80
      then rounds (t + 1) (tl w @ [rotl 1 (w ! 13 XOR w ! 8 XOR w ! 2 XOR w ! 0)])
             ((rotl 5 a + fk t b c d + e + hd w) mod 2 ^ 32, a, rotl 30 b, c, d)
      else (a, b, c, d, e))"
  by pat_completeness auto
termination
  by (relation "measure (\<lambda>(t, w, h). 80 - t)") auto

declare rounds.simps [simp del]

fun add_hst :: "hst \<Rightarrow> hst \<Rightarrow> hst" where
  "add_hst (h0, h1, h2, h3, h4) (a, b, c, d, e) =
     (add32 h0 a, add32 h1 b, add32 h2 c, add32 h3 d, add32 h4 e)"

definition compress :: "hst \<Rightarrow> u32 list \<Rightarrow> hst" where
  "compress h blk = add_hst h (rounds 0 blk h)"

definition hexdigit :: "nat \<Rightarrow> char" where
  "hexdigit n = ''0123456789abcdef'' ! n"

definition hex32 :: "u32 \<Rightarrow> string" where
  "hex32 w = map (\<lambda>i. hexdigit ((w div 2 ^ i) mod 16)) [28, 24, 20, 16, 12, 8, 4, 0]"

fun hex_hst :: "hst \<Rightarrow> string" where
  "hex_hst (a, b, c, d, e) = concat (map hex32 [a, b, c, d, e])"

definition sha1_hexdigest :: "string \<Rightarrow> string" where
  "sha1_hexdigest s =
     hex_hst (foldl compress (0x67452301, 0xEFCDAB89, 0x98BADCFE, 0x10325476, 0xC3D2E1F0)
                (blocks (be_words (sha1_pad (map of_char s)))))"

subsection \<open>\<open>make_id\<close> and \<open>norm_path\<close>\<close>

text \<open>
  The parts handed to \<open>make_id\<close> are strings, integers or \<open>None\<close>; each is turned
  into text by \<open>str\<close> (\<open>None\<close> becomes the empty string) and the texts are hashed one
  after the other, with no separator between them.
\<close>

datatype part = S string | I int | N

function str_nat :: "nat \<Rightarrow> string" where
  "str_nat n = (if n < 10 then [''0123456789'' ! n]
                else str_nat (n div 10) @ [''0123456789'' ! (n mod 10)])"
  by pat_completeness auto
termination
  by (relation "measure id") auto

declare str_nat.simps [simp del]

definition str_int :: "int \<Rightarrow> string" where
  "str_int i = (if i < 0 then CHR ''-'' # str_nat (nat (- i)) else str_nat (nat i))"

fun str_part :: "part \<Rightarrow> string" where
  "str_part (S s) = s"
| "str_part (I i) = str_int i"
| "str_part N = []"

definition make_id :: "part list \<Rightarrow> string" where
  "make_id parts = take 16 (sha1_hexdigest (concat (map str_part parts)))"

definition norm_path :: "string \<Rightarrow> string" where
  "norm_path p = map (\<lambda>c. if c = CHR 0x5C then CHR ''/'' else c) p"

section \<open>Records of the fact stream\<close>

text \<open>
  A range as \<open>range_of\<close> builds it. The end fields are optional because \<open>getattr\<close>
  hands back whatever the attribute holds, and that may be Python's \<open>None\<close>
  (written as JSON \<open>null\<close>).
\<close>

record src_range =
  startLine :: int
  startCol :: int
  endLine :: "int option"
  endCol :: "int option"

record symbol =
  sym_id :: string
  kind :: string
  name :: string
  sym_file :: string
  rng :: src_range
  language :: string
  parentId :: "string option"

record edge =
  src :: string
  etype :: string
  dst :: string

record call =
  calleeName :: string
  cfile :: string
  modId :: string

type_synonym name_index = "(string \<times> symbol list) list"

datatype fact =
    Symbol symbol
  | Edge edge
  | Call call
  | NameIndex string name_index

section \<open>Syntax trees\<close>

text \<open>
  An attribute that \<open>getattr\<close> probes with a default is either missing from the node
  or present; when present its value may still be \<open>None\<close>.
\<close>

datatype 'a attr = Missing | Present 'a

fun getattr :: "'a attr \<Rightarrow> 'a \<Rightarrow> 'a" where
  "getattr Missing d = d"
| "getattr (Present v) d = v"

text \<open>
  Positions of a statement or expression node. \<open>lineno\<close> and \<open>col_offset\<close> are
  mandatory attributes of such nodes (the visitor reads them directly), the two end
  attributes are optional.
\<close>

record pos =
  lineno :: int
  col_offset :: int
  end_lineno :: "int option attr"
  end_col_offset :: "int option attr"

text \<open>
  The node classes the visitor tells apart, each with the fields it reads and with its
  child nodes in the order in which \<open>generic_visit\<close> walks them (the order of the
  class's \<open>_fields\<close>, lists flattened). Children that are not nodes (strings, numbers,
  \<open>None\<close>) and the field-less context nodes \<open>Load\<close>, \<open>Store\<close> and \<open>Del\<close> are left out:
  visiting them emits nothing.
  \<^item> \<open>FunctionDef name pos children\<close>: children are args, body, decorator_list, returns.
  \<^item> \<open>ClassDef name pos pre body post\<close>: \<open>pre\<close> are bases and keywords, \<open>post\<close> are
    decorator_list and type parameters.
  \<^item> \<open>Assign targets value\<close>.
  \<^item> \<open>Import names\<close>: the \<open>name\<close> of each alias.
  \<^item> \<open>ImportFrom module level\<close>.
  \<^item> \<open>CallN func rest\<close>: \<open>rest\<close> are args and keywords.
  \<^item> \<open>Name id pos\<close>, \<open>Attribute value attr\<close>, \<open>Tuple elts\<close>, \<open>Subscript value slice\<close>.
  \<^item> \<open>Other children\<close>: a node of any other class (\<open>Module\<close>, \<open>AsyncFunctionDef\<close>,
    \<open>If\<close>, \<open>Expr\<close>, \<open>arguments\<close>, ...).
\<close>

datatype node =
    FunctionDef string pos "node list"
  | ClassDef string pos "node list" "node list" "node list"
  | Assign "node list" node
  | Import "string list"
  | ImportFrom "string option" "int option"
  | CallN node "node list"
  | Name string pos
  | Attribute node string
  | Tuple "node list"
  | Subscript node node
  | Other "node list"

section \<open>The visitor\<close>

definition range_of :: "pos \<Rightarrow> src_range" where
  "range_of p =
     (let sl = lineno p;
          sc = col_offset p + 1;
          el = getattr (end_lineno p) (Some sl);
          ec = getattr (end_col_offset p) (Some sc)
      in \<lparr>startLine = sl, startCol = sc, endLine = el, endCol = ec\<rparr>)"

definition fixed_range :: src_range where
  "fixed_range = \<lparr>startLine = 1, startCol = 1, endLine = Some 1, endCol = Some 1\<rparr>"

text \<open>
  The visitor writes to standard output and to the dictionary \<open>name_index\<close>; both are
  threaded through as a pair. \<open>emit\<close> appends one record to the stream.
\<close>

type_synonym vstate = "fact list \<times> name_index"

fun emit :: "fact \<Rightarrow> vstate \<Rightarrow> vstate" where
  "emit r (out, ni) = (out @ [r], ni)"

text \<open>\<open>name_index.setdefault(name, []).append(sym)\<close> on an insertion-ordered dictionary.\<close>

fun setdefault_append :: "name_index \<Rightarrow> string \<Rightarrow> symbol \<Rightarrow> name_index" where
  "setdefault_append [] k v = [(k, [v])]"
| "setdefault_append ((k', vs) # r) k v =
     (if k' = k then (k', vs @ [v]) # r else (k', vs) # setdefault_append r k v)"

fun index_append :: "string \<Rightarrow> symbol \<Rightarrow> vstate \<Rightarrow> vstate" where
  "index_append k v (out, ni) = (out, setdefault_append ni k v)"

text \<open>The symbol dictionaries, one per visit method, as the source writes them.\<close>

definition function_sym :: "string \<Rightarrow> string \<Rightarrow> pos \<Rightarrow> symbol" where
  "function_sym file_rel nm p =
     \<lparr>sym_id = make_id [S ''function'', S nm, S file_rel, I (lineno p), I (col_offset p + 1)],
      kind = ''function'', name = nm, sym_file = file_rel, rng = range_of p,
      language = ''python'', parentId = None\<rparr>"

definition class_sym :: "string \<Rightarrow> string \<Rightarrow> pos \<Rightarrow> symbol" where
  "class_sym file_rel nm p =
     \<lparr>sym_id = make_id [S ''class'', S nm, S file_rel, I (lineno p), I (col_offset p + 1)],
      kind = ''class'', name = nm, sym_file = file_rel, rng = range_of p,
      language = ''python'', parentId = None\<rparr>"

definition method_sym :: "string \<Rightarrow> string \<Rightarrow> string \<Rightarrow> pos \<Rightarrow> symbol" where
  "method_sym file_rel klass_id mname p =
     \<lparr>sym_id = make_id [S ''method'', S mname, S file_rel, I (lineno p), I (col_offset p + 1)],
      kind = ''method'', name = mname, sym_file = file_rel, rng = range_of p,
      language = ''python'', parentId = Some klass_id\<rparr>"

definition variable_sym :: "string \<Rightarrow> string \<Rightarrow> pos \<Rightarrow> symbol" where
  "variable_sym file_rel vname p =
     \<lparr>sym_id = make_id [S ''variable'', S vname, S file_rel, I (lineno p), I (col_offset p + 1)],
      kind = ''variable'', name = vname, sym_file = file_rel, rng = range_of p,
      language = ''python'', parentId = None\<rparr>"

definition pseudo_module_sym :: "string \<Rightarrow> symbol" where
  "pseudo_module_sym spec =
     \<lparr>sym_id = make_id [S ''module'', S spec, S spec, I 1, I 1],
      kind = ''module'', name = spec, sym_file = spec, rng = fixed_range,
      language = ''python'', parentId = None\<rparr>"

definition mk_edge :: "string \<Rightarrow> string \<Rightarrow> string \<Rightarrow> fact" where
  "mk_edge s t d = Edge \<lparr>src = s, etype = t, dst = d\<rparr>"

text \<open>The loop over the direct body of a class that emits the method symbols.\<close>

fun class_methods :: "string \<Rightarrow> string \<Rightarrow> node list \<Rightarrow> vstate \<Rightarrow> vstate" where
  "class_methods file_rel klass_id [] st = st"
| "class_methods file_rel klass_id (FunctionDef mname p cs # bs) st =
     class_methods file_rel klass_id bs
       (index_append mname (method_sym file_rel klass_id mname p)
         (emit (mk_edge klass_id ''member_of'' (sym_id (method_sym file_rel klass_id mname p)))
           (emit (Symbol (method_sym file_rel klass_id mname p)) st)))"
| "class_methods file_rel klass_id (b # bs) st = class_methods file_rel klass_id bs st"

text \<open>The loop of \<open>visit_Import\<close> over the aliases.\<close>

fun import_names :: "string \<Rightarrow> string list \<Rightarrow> vstate \<Rightarrow> vstate" where
  "import_names mod_id [] st = st"
| "import_names mod_id (spec # r) st =
     import_names mod_id r
       (emit (mk_edge mod_id ''import'' (sym_id (pseudo_module_sym spec)))
         (emit (Symbol (pseudo_module_sym spec)) st))"

text \<open>
  The specifier of \<open>visit_ImportFrom\<close>: \<open>(node.module or '') + ('.' * (node.level or 0))\<close>.
  Python's \<open>'.' * n\<close> is empty for \<open>n \<le> 0\<close>, as \<open>replicate (nat n)\<close> is.
\<close>

definition import_from_spec :: "string option \<Rightarrow> int option \<Rightarrow> string" where
  "import_from_spec module level =
     (case module of None \<Rightarrow> [] | Some m \<Rightarrow> m) @
     replicate (nat (case level of None \<Rightarrow> 0 | Some l \<Rightarrow> l)) CHR ''.''"

text \<open>The callee name of \<open>visit_Call\<close>; \<open>None\<close> stands for Python's \<open>None\<close>.\<close>

fun callee_name :: "node \<Rightarrow> string option" where
  "callee_name (Name i p) = Some i"
| "callee_name (Attribute v a) = Some a"
| "callee_name _ = None"

definition call_fact :: "string \<Rightarrow> string \<Rightarrow> string \<Rightarrow> fact" where
  "call_fact nm file_rel mod_id = Call \<lparr>calleeName = nm, cfile = file_rel, modId = mod_id\<rparr>"

text \<open>
  \<open>visit\<close> dispatches on the class of the node; a class without a visit method falls to
  \<open>generic_visit\<close>, which visits the children in order. \<open>file_rel\<close> and \<open>mod_id\<close> are
  the variables of \<open>ingest_file\<close> that the visitor class closes over.
\<close>

function visit :: "string \<Rightarrow> string \<Rightarrow> node \<Rightarrow> vstate \<Rightarrow> vstate"
  and generic_visit :: "string \<Rightarrow> string \<Rightarrow> node list \<Rightarrow> vstate \<Rightarrow> vstate" where
  "visit file_rel mod_id (FunctionDef nm p cs) st =
     generic_visit file_rel mod_id cs
       (index_append nm (function_sym file_rel nm p)
         (emit (mk_edge mod_id ''defines'' (sym_id (function_sym file_rel nm p)))
           (emit (Symbol (function_sym file_rel nm p)) st)))"
| "visit file_rel mod_id (ClassDef nm p pre body post) st =
     generic_visit file_rel mod_id post
       (generic_visit file_rel mod_id body
         (generic_visit file_rel mod_id pre
           (class_methods file_rel (sym_id (class_sym file_rel nm p)) body
             (emit (mk_edge mod_id ''defines'' (sym_id (class_sym file_rel nm p)))
               (emit (Symbol (class_sym file_rel nm p)) st)))))"
| "visit file_rel mod_id (Assign targets v) st =
     visit file_rel mod_id v
       (generic_visit file_rel mod_id targets
         (case targets of
            Name vname p # ts \<Rightarrow>
              index_append vname (variable_sym file_rel vname p)
                (emit (mk_edge mod_id ''defines'' (sym_id (variable_sym file_rel vname p)))
                  (emit (Symbol (variable_sym file_rel vname p)) st))
          | _ \<Rightarrow> st))"
| "visit file_rel mod_id (Import names) st = import_names mod_id names st"
| "visit file_rel mod_id (ImportFrom module level) st =
     emit (mk_edge mod_id ''import'' (sym_id (pseudo_module_sym (import_from_spec module level))))
       (emit (Symbol (pseudo_module_sym (import_from_spec module level))) st)"
| "visit file_rel mod_id (CallN func rest) st =
     generic_visit file_rel mod_id rest
       (visit file_rel mod_id func
         (case callee_name func of
            Some nm \<Rightarrow> if nm \<noteq> [] then emit (call_fact nm file_rel mod_id) st else st
          | None \<Rightarrow> st))"
| "visit file_rel mod_id (Name i p) st = st"
| "visit file_rel mod_id (Attribute v a) st = visit file_rel mod_id v st"
| "visit file_rel mod_id (Tuple elts) st = generic_visit file_rel mod_id elts st"
| "visit file_rel mod_id (Subscript v sl) st =
     visit file_rel mod_id sl (visit file_rel mod_id v st)"
| "visit file_rel mod_id (Other cs) st = generic_visit file_rel mod_id cs st"
| "generic_visit file_rel mod_id [] st = st"
| "generic_visit file_rel mod_id (c # cs) st =
     generic_visit file_rel mod_id cs (visit file_rel mod_id c st)"
  by pat_completeness auto
termination
  by (relation "measure (\<lambda>x. case x of
        Inl (f, m, n, st) \<Rightarrow> size n
      | Inr (f, m, ns, st) \<Rightarrow> size_list size ns)") auto

section \<open>\<open>ingest_file\<close>\<close>

text \<open>
  What \<open>ingest_file\<close> takes from outside the program: reading a file (\<open>None\<close> when
  \<open>open\<close> or \<open>read\<close> raises), \<open>ast.parse\<close>, and \<open>os.path.relpath\<close>.
\<close>

datatype parse_result = Parsed node | SyntaxError | OtherException

record env =
  read_file :: "string \<Rightarrow> string option"
  ast_parse :: "string \<Rightarrow> parse_result"
  relpath :: "string \<Rightarrow> string \<Rightarrow> string"

datatype exn = Uncaught

definition module_sym :: "string \<Rightarrow> symbol" where
  "module_sym file_rel =
     \<lparr>sym_id = make_id [S ''module'', S ''python'', S file_rel, I 1, I 1],
      kind = ''module'', name = file_rel, sym_file = file_rel, rng = fixed_range,
      language = ''python'', parentId = None\<rparr>"

fun emit_name_index :: "string \<Rightarrow> vstate \<Rightarrow> fact list" where
  "emit_name_index file_rel (out, ni) = out @ [NameIndex file_rel ni]"

text \<open>
  The part of \<open>ingest_file\<close> after a successful parse: the module symbol, the visitor
  pass with a fresh name index, and the name-index record. \<open>out\<close> is what standard
  output holds when the call starts.
\<close>

definition ingest_tree :: "string \<Rightarrow> node \<Rightarrow> fact list \<Rightarrow> fact list" where
  "ingest_tree file_rel tree out =
     emit_name_index file_rel
       (visit file_rel (sym_id (module_sym file_rel)) tree
         (emit (Symbol (module_sym file_rel)) (out, [])))"

text \<open>
  \<open>ingest_file\<close> returns the stream after the call, or \<open>Inl Uncaught\<close> when
  \<open>ast.parse\<close> raises something other than \<open>SyntaxError\<close>, which the source does not
  catch (nothing has been written at that point).
\<close>

definition ingest_file :: "env \<Rightarrow> string \<Rightarrow> string \<Rightarrow> fact list \<Rightarrow> exn + fact list" where
  "ingest_file e root path out =
     (case read_file e path of
        None \<Rightarrow> Inr out
      | Some text \<Rightarrow>
          (case ast_parse e text of
             SyntaxError \<Rightarrow> Inr out
           | OtherException \<Rightarrow> Inl Uncaught
           | Parsed tree \<Rightarrow> Inr (ingest_tree (norm_path (relpath e path root)) tree out)))"

section \<open>What a visit emits, as lists\<close>

text \<open>
  The records that a visit appends to the stream and the entries it appends to the name
  index, written as plain recursive functions of the tree. They are proved equal to what
  \<open>visit\<close> does (\<open>visit_eq\<close> below) and serve the proofs only.
\<close>

fun method_recs :: "string \<Rightarrow> string \<Rightarrow> node list \<Rightarrow> fact list" where
  "method_recs f k [] = []"
| "method_recs f k (FunctionDef mname p cs # bs) =
     [Symbol (method_sym f k mname p), mk_edge k ''member_of'' (sym_id (method_sym f k mname p))]
     @ method_recs f k bs"
| "method_recs f k (b # bs) = method_recs f k bs"

fun method_adds :: "string \<Rightarrow> string \<Rightarrow> node list \<Rightarrow> (string \<times> symbol) list" where
  "method_adds f k [] = []"
| "method_adds f k (FunctionDef mname p cs # bs) = (mname, method_sym f k mname p) # method_adds f k bs"
| "method_adds f k (b # bs) = method_adds f k bs"

definition import_recs :: "string \<Rightarrow> string list \<Rightarrow> fact list" where
  "import_recs m names = concat (map (\<lambda>spec.
     [Symbol (pseudo_module_sym spec), mk_edge m ''import'' (sym_id (pseudo_module_sym spec))]) names)"

fun assign_recs :: "string \<Rightarrow> string \<Rightarrow> node list \<Rightarrow> fact list" where
  "assign_recs f m (Name vname p # ts) =
     [Symbol (variable_sym f vname p), mk_edge m ''defines'' (sym_id (variable_sym f vname p))]"
| "assign_recs f m ts = []"

fun assign_adds :: "string \<Rightarrow> node list \<Rightarrow> (string \<times> symbol) list" where
  "assign_adds f (Name vname p # ts) = [(vname, variable_sym f vname p)]"
| "assign_adds f ts = []"

definition call_recs :: "string \<Rightarrow> string \<Rightarrow> node \<Rightarrow> fact list" where
  "call_recs f m func = (case callee_name func of
      Some nm \<Rightarrow> if nm \<noteq> [] then [call_fact nm f m] else []
    | None \<Rightarrow> [])"

primrec recs :: "string \<Rightarrow> string \<Rightarrow> node \<Rightarrow> fact list" where
  "recs f m (FunctionDef nm p cs) =
     [Symbol (function_sym f nm p), mk_edge m ''defines'' (sym_id (function_sym f nm p))]
     @ concat (map (recs f m) cs)"
| "recs f m (ClassDef nm p pre body post) =
     [Symbol (class_sym f nm p), mk_edge m ''defines'' (sym_id (class_sym f nm p))]
     @ method_recs f (sym_id (class_sym f nm p)) body
     @ concat (map (recs f m) pre) @ concat (map (recs f m) body) @ concat (map (recs f m) post)"
| "recs f m (Assign targets v) =
     assign_recs f m targets @ concat (map (recs f m) targets) @ recs f m v"
| "recs f m (Import names) = import_recs m names"
| "recs f m (ImportFrom module level) =
     [Symbol (pseudo_module_sym (import_from_spec module level)),
      mk_edge m ''import'' (sym_id (pseudo_module_sym (import_from_spec module level)))]"
| "recs f m (CallN func rest) = call_recs f m func @ recs f m func @ concat (map (recs f m) rest)"
| "recs f m (Name i p) = []"
| "recs f m (Attribute v a) = recs f m v"
| "recs f m (Tuple elts) = concat (map (recs f m) elts)"
| "recs f m (Subscript v sl) = recs f m v @ recs f m sl"
| "recs f m (Other cs) = concat (map (recs f m) cs)"

primrec adds :: "string \<Rightarrow> node \<Rightarrow> (string \<times> symbol) list" where
  "adds f (FunctionDef nm p cs) = (nm, function_sym f nm p) # concat (map (adds f) cs)"
| "adds f (ClassDef nm p pre body post) =
     method_adds f (sym_id (class_sym f nm p)) body
     @ concat (map (adds f) pre) @ concat (map (adds f) body) @ concat (map (adds f) post)"
| "adds f (Assign targets v) = assign_adds f targets @ concat (map (adds f) targets) @ adds f v"
| "adds f (Import names) = []"
| "adds f (ImportFrom module level) = []"
| "adds f (CallN func rest) = adds f func @ concat (map (adds f) rest)"
| "adds f (Name i p) = []"
| "adds f (Attribute v a) = adds f v"
| "adds f (Tuple elts) = concat (map (adds f) elts)"
| "adds f (Subscript v sl) = adds f v @ adds f sl"
| "adds f (Other cs) = concat (map (adds f) cs)"

fun apply_adds :: "name_index \<Rightarrow> (string \<times> symbol) list \<Rightarrow> name_index" where
  "apply_adds ni [] = ni"
| "apply_adds ni ((k, v) # r) = apply_adds (setdefault_append ni k v) r"

definition entries :: "name_index \<Rightarrow> string \<Rightarrow> symbol list" where
  "entries ni k = (case map_of ni k of None \<Rightarrow> [] | Some vs \<Rightarrow> vs)"

section \<open>Properties of a record stream\<close>

text \<open>
  \<open>records_of\<close> reads the stream off the result of \<open>ingest_file\<close>; \<open>emitted_by\<close> is
  what one visit adds to the stream it is given. \<open>closed_from seen rs\<close> holds when every
  edge of \<open>rs\<close> has both endpoints among \<open>seen\<close> and the ids of the symbols that precede
  it in \<open>rs\<close>. \<open>id_of_tuple\<close> hashes the tuple (kind, name, file, line, column) of a
  symbol record.
\<close>

fun records_of :: "exn + fact list \<Rightarrow> fact list" where
  "records_of (Inr r) = r"
| "records_of (Inl x) = []"

definition emitted_by :: "string \<Rightarrow> string \<Rightarrow> node \<Rightarrow> vstate \<Rightarrow> fact list" where
  "emitted_by f m n st = drop (length (fst st)) (fst (visit f m n st))"

fun symbol_ids :: "fact list \<Rightarrow> string list" where
  "symbol_ids [] = []"
| "symbol_ids (Symbol s # r) = sym_id s # symbol_ids r"
| "symbol_ids (x # r) = symbol_ids r"

definition new_ids :: "fact list \<Rightarrow> exn + fact list \<Rightarrow> exn + string list" where
  "new_ids out res = map_sum id (\<lambda>r. symbol_ids (drop (length out) r)) res"

fun closed_from :: "string list \<Rightarrow> fact list \<Rightarrow> bool" where
  "closed_from seen [] = True"
| "closed_from seen (Symbol s # r) = closed_from (sym_id s # seen) r"
| "closed_from seen (Edge e # r) = (src e \<in> set seen \<and> dst e \<in> set seen \<and> closed_from seen r)"
| "closed_from seen (Call c # r) = closed_from seen r"
| "closed_from seen (NameIndex f ni # r) = closed_from seen r"

fun call_tagged :: "string \<Rightarrow> fact \<Rightarrow> bool" where
  "call_tagged m (Call c) = (modId c = m)"
| "call_tagged m x = True"

definition id_of_tuple :: "symbol \<Rightarrow> string" where
  "id_of_tuple s =
     make_id [S (kind s), S (name s), S (sym_file s), I (startLine (rng s)), I (startCol (rng s))]"

fun fact_id_ok :: "fact \<Rightarrow> bool" where
  "fact_id_ok (Symbol s) = (sym_id s = id_of_tuple s)"
| "fact_id_ok x = True"

fun variable_symbols :: "fact list \<Rightarrow> symbol list" where
  "variable_symbols [] = []"
| "variable_symbols (Symbol s # r) =
     (if kind s = ''variable'' then s # variable_symbols r else variable_symbols r)"
| "variable_symbols (x # r) = variable_symbols r"

fun is_import :: "node \<Rightarrow> bool" where
  "is_import (Import names) = True"
| "is_import (ImportFrom module level) = True"
| "is_import n = False"

fun is_symbol_of :: "string \<Rightarrow> string \<Rightarrow> fact \<Rightarrow> bool" where
  "is_symbol_of k n (Symbol s) = (kind s = k \<and> name s = n)"
| "is_symbol_of k n x = False"

fun is_symbol :: "fact \<Rightarrow> bool" where
  "is_symbol (Symbol s) = True"
| "is_symbol x = False"

fun is_edge :: "fact \<Rightarrow> bool" where
  "is_edge (Edge e) = True"
| "is_edge x = False"

fun is_call :: "fact \<Rightarrow> bool" where
  "is_call (Call c) = True"
| "is_call x = False"

section \<open>Shapes of trees\<close>

text \<open>
  A \<open>silent\<close> tree holds no declaration, assignment, import or call; an \<open>assign_free\<close>
  tree holds no assignment statement (expressions never do).
\<close>

fun silent :: "node \<Rightarrow> bool" where
  "silent (Name i p) = True"
| "silent (Attribute v a) = silent v"
| "silent (Tuple elts) = (\<forall>c \<in> set elts. silent c)"
| "silent (Subscript v sl) = (silent v \<and> silent sl)"
| "silent (Other cs) = (\<forall>c \<in> set cs. silent c)"
| "silent n = False"

fun assign_free :: "node \<Rightarrow> bool" where
  "assign_free (Assign targets v) = False"
| "assign_free (FunctionDef nm p cs) = (\<forall>c \<in> set cs. assign_free c)"
| "assign_free (ClassDef nm p pre body post) =
     ((\<forall>c \<in> set pre. assign_free c) \<and> (\<forall>c \<in> set body. assign_free c)
      \<and> (\<forall>c \<in> set post. assign_free c))"
| "assign_free (CallN func rest) = (assign_free func \<and> (\<forall>c \<in> set rest. assign_free c))"
| "assign_free (Attribute v a) = assign_free v"
| "assign_free (Tuple elts) = (\<forall>c \<in> set elts. assign_free c)"
| "assign_free (Subscript v sl) = (assign_free v \<and> assign_free sl)"
| "assign_free (Other cs) = (\<forall>c \<in> set cs. assign_free c)"
| "assign_free n = True"

section \<open>Example inputs\<close>

text \<open>
  The end-to-end scenario: a file \<open>a.src\<close> under the root \<open>proj\<close> with a function
  \<open>f\<close> and a class \<open>C\<close> with one method \<open>m\<close>, with the positions the parser reports
  for that text. \<open>scenario_counts\<close> counts the records the scenario is said to emit:
  four symbols (module, function \<open>f\<close>, class \<open>C\<close>, method \<open>m\<close>), three edges, no call.
  \<open>beta_tree\<close> is the tree of the repository's own example \<open>example/py/beta.py\<close>.
\<close>

definition mk_pos :: "int \<Rightarrow> int \<Rightarrow> int \<Rightarrow> int \<Rightarrow> pos" where
  "mk_pos l c el ec =
     \<lparr>lineno = l, col_offset = c, end_lineno = Present (Some el), end_col_offset = Present (Some ec)\<rparr>"

definition scenario_text :: string where
  "scenario_text = ''def f():'' @ [CHR 0x0A] @ ''    pass'' @ [CHR 0x0A] @ [CHR 0x0A] @
     ''class C:'' @ [CHR 0x0A] @ ''    def m(self):'' @ [CHR 0x0A] @ ''        pass'' @ [CHR 0x0A]"

definition scenario_tree :: node where
  "scenario_tree = Other
     [FunctionDef ''f'' (mk_pos 1 0 2 8) [Other [], Other []],
      ClassDef ''C'' (mk_pos 4 0 6 12) []
        [FunctionDef ''m'' (mk_pos 5 4 6 12) [Other [Other []], Other []]] []]"

definition scenario_env :: env where
  "scenario_env =
     \<lparr>read_file = (\<lambda>p. if p = ''proj/a.src'' then Some scenario_text
                        else if p = ''proj/bad.py'' then Some ''def (''
                        else None),
      ast_parse = (\<lambda>t. if t = scenario_text then Parsed scenario_tree else SyntaxError),
      relpath = (\<lambda>p r. drop (length r + 1) p)\<rparr>"

definition other_env :: env where
  "other_env =
     \<lparr>read_file = (\<lambda>p. if p = ''proj/a.src'' then Some scenario_text else Some ''x = 1''),
      ast_parse = ast_parse scenario_env,
      relpath = (\<lambda>p r. if r = ''proj'' then drop 5 p else p)\<rparr>"

definition scenario_counts :: "fact list \<Rightarrow> bool" where
  "scenario_counts rs =
     (length (filter (is_symbol_of ''module'' ''a.src'') rs) = 1 \<and>
      length (filter (is_symbol_of ''function'' ''f'') rs) = 1 \<and>
      length (filter (is_symbol_of ''class'' ''C'') rs) = 1 \<and>
      length (filter (is_symbol_of ''method'' ''m'') rs) = 1 \<and>
      length (filter is_symbol rs) = 4 \<and>
      length (filter is_edge rs) = 3 \<and>
      length (filter is_call rs) = 0)"

definition unlines :: "string list \<Rightarrow> string" where
  "unlines ls = concat (map (\<lambda>l. l @ [CHR 0x0A]) ls)"

definition beta_text :: string where
  "beta_text = unlines
     [''from .utils import greet'',
      '''',
      ''def main(name: str) -> None:'',
      ''    print(log(greet(name)))'',
      '''',
      ''def log(msg: str) -> str:'',
      ''    return f'' @ [CHR 0x22] @ ''[py] {msg}'' @ [CHR 0x22],
      '''',
      ''class Person:'',
      ''    def __init__(self, name: str):'',
      ''        self.name = name'',
      ''    def speak(self):'',
      ''        return greet(self.name)'',
      '''']"

definition beta_tree :: node where
  "beta_tree = Other
     [ImportFrom (Some ''utils'') (Some 1),
      FunctionDef ''main'' (mk_pos 3 0 4 27)
        [Other [Other [Name ''str'' (mk_pos 3 15 3 18)]],
         Other [CallN (Name ''print'' (mk_pos 4 4 4 9))
                  [CallN (Name ''log'' (mk_pos 4 10 4 13))
                     [CallN (Name ''greet'' (mk_pos 4 14 4 19))
                        [Name ''name'' (mk_pos 4 20 4 24)]]]],
         Other []],
      FunctionDef ''log'' (mk_pos 6 0 7 24)
        [Other [Other [Name ''str'' (mk_pos 6 13 6 16)]],
         Other [Other [Other [], Other [Name ''msg'' (mk_pos 7 19 7 22)]]],
         Name ''str'' (mk_pos 6 21 6 24)],
      ClassDef ''Person'' (mk_pos 9 0 13 31) []
        [FunctionDef ''__init__'' (mk_pos 10 4 11 24)
           [Other [Other [], Other [Name ''str'' (mk_pos 10 29 10 32)]],
            Assign [Attribute (Name ''self'' (mk_pos 11 8 11 12)) ''name'']
              (Name ''name'' (mk_pos 11 20 11 24))],
         FunctionDef ''speak'' (mk_pos 12 4 13 31)
           [Other [Other []],
            Other [CallN (Name ''greet'' (mk_pos 13 15 13 20))
                     [Attribute (Name ''self'' (mk_pos 13 21 13 25)) ''name'']]]]
        []]"

definition beta_env :: env where
  "beta_env =
     \<lparr>read_file = (\<lambda>p. if p = ''example/py/beta.py'' then Some beta_text else None),
      ast_parse = (\<lambda>t. if t = beta_text then Parsed beta_tree else SyntaxError),
      relpath = (\<lambda>p r. drop (length r + 1) p)\<rparr>"

section \<open>Auxiliary facts\<close>

lemma apply_adds_append: "apply_adds ni (xs @ ys) = apply_adds (apply_adds ni xs) ys"
  by (induction xs arbitrary: ni) auto

lemma class_methods_eq:
  "class_methods f k bs st = (fst st @ method_recs f k bs, apply_adds (snd st) (method_adds f k bs))"
  by (induction f k bs st rule: class_methods.induct) (auto simp: mk_edge_def)

lemma import_names_eq:
  "import_names m names st = (fst st @ import_recs m names, snd st)"
  by (induction m names st rule: import_names.induct) (auto simp: import_recs_def)

lemma visit_eq:
  "visit f m n st = (fst st @ recs f m n, apply_adds (snd st) (adds f n))"
  "generic_visit f m ns st =
     (fst st @ concat (map (recs f m) ns), apply_adds (snd st) (concat (map (adds f) ns)))"
proof (induction f m n st and f m ns st rule: visit_generic_visit.induct)
  case (1 file_rel mod_id nm p cs st)
  then show ?case by (cases st) (simp add: mk_edge_def)
next
  case (2 file_rel mod_id nm p pre body post st)
  then show ?case by (cases st) (simp add: apply_adds_append class_methods_eq)
next
  case (3 file_rel mod_id targets v st)
  show ?case
  proof (cases "\<exists>vname p ts. targets = Name vname p # ts")
    case True
    then obtain vname p ts where t: "targets = Name vname p # ts" by blast
    show ?thesis using 3 unfolding t by (cases st) (simp add: apply_adds_append)
  next
    case False
    then have a: "assign_recs file_rel mod_id targets = []" "assign_adds file_rel targets = []"
      and b: "(case targets of Name vname p # ts \<Rightarrow> X vname p | _ \<Rightarrow> st) = st" for X
      by (cases targets; cases "hd targets"; simp)+
    show ?thesis using 3 by (simp add: a b apply_adds_append)
  qed
next
  case (4 file_rel mod_id names st)
  then show ?case by (simp add: import_names_eq)
next
  case (5 file_rel mod_id module level st)
  then show ?case by (cases st) simp
next
  case (6 file_rel mod_id func rest st)
  then show ?case
    by (cases st; cases "callee_name func"; cases "the (callee_name func) = []")
       (simp_all add: apply_adds_append call_recs_def)
qed (simp_all add: apply_adds_append)

lemma symbol_ids_append: "symbol_ids (xs @ ys) = symbol_ids xs @ symbol_ids ys"
  by (induction xs rule: symbol_ids.induct) auto

lemma closed_from_append:
  "closed_from seen (xs @ ys) =
     (closed_from seen xs \<and> closed_from (rev (symbol_ids xs) @ seen) ys)"
  by (induction seen xs rule: closed_from.induct) auto

lemma closed_from_mono:
  "closed_from seen xs \<Longrightarrow> set seen \<subseteq> set seen' \<Longrightarrow> closed_from seen' xs"
proof (induction seen xs arbitrary: seen' rule: closed_from.induct)
  case (2 seen s r)
  have "closed_from (sym_id s # seen') r"
    by (rule "2.IH") (use 2 in auto)
  then show ?case by simp
qed auto

lemma closed_concat:
  assumes "\<And>x seen. x \<in> set xs \<Longrightarrow> m \<in> set seen \<Longrightarrow> closed_from seen (g x)"
    and "m \<in> set seen"
  shows "closed_from seen (concat (map g xs))"
  using assms by (induction xs arbitrary: seen) (auto simp: closed_from_append)

lemma closed_method_recs:
  "k \<in> set seen \<Longrightarrow> closed_from seen (method_recs f k bs)"
  by (induction f k bs arbitrary: seen rule: method_recs.induct) (auto simp: mk_edge_def)

lemma closed_import_recs:
  "m \<in> set seen \<Longrightarrow> closed_from seen (import_recs m names)"
  by (induction names arbitrary: seen) (auto simp: import_recs_def mk_edge_def)

lemma closed_assign_recs:
  "m \<in> set seen \<Longrightarrow> closed_from seen (assign_recs f m ts)"
  by (induction f m ts rule: assign_recs.induct) (auto simp: mk_edge_def)

lemma closed_call_recs: "closed_from seen (call_recs f m func)"
  by (auto simp: call_recs_def call_fact_def split: option.splits)

lemma closed_recs: "m \<in> set seen \<Longrightarrow> closed_from seen (recs f m n)"
proof (induction n arbitrary: seen)
  case (FunctionDef nm p cs)
  then show ?case by (auto simp: mk_edge_def intro!: closed_concat[where m = m])
next
  case (ClassDef nm p pre body post)
  then show ?case
    by (auto simp: mk_edge_def closed_from_append closed_method_recs
          intro!: closed_concat[where m = m])
next
  case (Assign targets v)
  then show ?case
    by (auto simp: closed_from_append closed_assign_recs intro!: closed_concat[where m = m])
next
  case (CallN func rest)
  then show ?case
    by (auto simp: closed_from_append closed_call_recs intro!: closed_concat[where m = m])
qed (auto simp: mk_edge_def closed_from_append closed_import_recs intro!: closed_concat[where m = m])

lemma tagged_recs: "list_all (call_tagged m) (recs f m n)"
proof (induction n)
  case (ClassDef nm p pre body post)
  have "list_all (call_tagged m) (method_recs f k body)" for k
    by (induction f k body rule: method_recs.induct) (auto simp: mk_edge_def)
  with ClassDef show ?case by (auto simp: mk_edge_def list_all_iff)
next
  case (Assign targets v)
  have "list_all (call_tagged m) (assign_recs f m targets)"
    by (induction f m targets rule: assign_recs.induct) (auto simp: mk_edge_def)
  with Assign show ?case by (auto simp: list_all_iff)
qed (auto simp: mk_edge_def list_all_iff import_recs_def call_recs_def call_fact_def split: option.splits)

lemma ingest_tree_eq:
  "ingest_tree f t out =
     out @ Symbol (module_sym f) # recs f (sym_id (module_sym f)) t
         @ [NameIndex f (apply_adds [] (adds f t))]"
  by (simp add: ingest_tree_def visit_eq)

lemma range_of_start [simp]:
  "startLine (range_of p) = lineno p" "startCol (range_of p) = col_offset p + 1"
  by (simp_all add: range_of_def Let_def)

lemma id_ok_syms [simp]:
  "id_of_tuple (function_sym f nm p) = sym_id (function_sym f nm p)"
  "id_of_tuple (class_sym f nm p) = sym_id (class_sym f nm p)"
  "id_of_tuple (method_sym f k nm p) = sym_id (method_sym f k nm p)"
  "id_of_tuple (variable_sym f nm p) = sym_id (variable_sym f nm p)"
  "id_of_tuple (pseudo_module_sym sp) = sym_id (pseudo_module_sym sp)"
  by (simp_all add: id_of_tuple_def function_sym_def class_sym_def method_sym_def
        variable_sym_def pseudo_module_sym_def fixed_range_def)

lemma id_ok_recs: "list_all fact_id_ok (recs f m n)"
proof (induction n)
  case (ClassDef nm p pre body post)
  have "list_all fact_id_ok (method_recs f k body)" for k
    by (induction f k body rule: method_recs.induct) (auto simp: mk_edge_def)
  with ClassDef show ?case by (auto simp: mk_edge_def list_all_iff)
next
  case (Assign targets v)
  have "list_all fact_id_ok (assign_recs f m targets)"
    by (induction f m targets rule: assign_recs.induct) (auto simp: mk_edge_def)
  with Assign show ?case by (auto simp: list_all_iff)
qed (auto simp: mk_edge_def list_all_iff import_recs_def call_recs_def call_fact_def split: option.splits)

lemma replicate_num: "replicate (numeral k) x = x # replicate (pred_numeral k) x"
  by (simp add: numeral_eq_Suc)

lemmas sha1_eval = sha1_hexdigest_def sha1_pad_def replicate_num blocks.simps rounds.simps
  compress_def rotl_def fk_def ch_def maj_def parity_def hex32_def hexdigit_def add32_def not32_def

lemma parts_root: "concat (map str_part [S ''module'', S ''python'', S ''a.src'', I 1, I 1]) = ''modulepythona.src11''"
  by (simp add: str_int_def str_nat.simps)

lemma parts_tuple: "concat (map str_part [S ''module'', S ''a.src'', S ''a.src'', I 1, I 1]) = ''modulea.srca.src11''"
  by (simp add: str_int_def str_nat.simps)

lemma id_root: "make_id [S ''module'', S ''python'', S ''a.src'', I 1, I 1] = ''d0bb812cb4525269''"
  unfolding make_id_def parts_root by (simp add: sha1_eval)

lemma id_tuple: "make_id [S ''module'', S ''a.src'', S ''a.src'', I 1, I 1] = ''7252925d61b1bfde''"
  unfolding make_id_def parts_tuple by (simp add: sha1_eval)

lemma scenario_run:
  "ingest_file scenario_env ''proj'' ''proj/a.src'' out = Inr (ingest_tree ''a.src'' scenario_tree out)"
  by (simp add: ingest_file_def scenario_env_def norm_path_def scenario_text_def)

lemma emitted_by_eq: "emitted_by f m n st = recs f m n"
  by (simp add: emitted_by_def visit_eq)

lemma silent_recs: "silent n \<Longrightarrow> recs f m n = [] \<and> adds f n = []"
  by (induction n rule: silent.induct) auto

lemma silent_list:
  "list_all silent cs \<Longrightarrow> concat (map (recs f m) cs) = [] \<and> concat (map (adds f) cs) = []"
  by (induction cs) (auto simp: silent_recs)

lemma scenario_silent:
  "list_all silent [Other [], Other []]" "list_all silent [Other [Other []], Other []]"
  "list_all silent []"
  by simp_all

lemma scenario_reads:
  "read_file scenario_env ''proj/a.src'' = Some scenario_text"
  "ast_parse scenario_env scenario_text = Parsed scenario_tree"
  "norm_path (relpath scenario_env ''proj/a.src'' ''proj'') = ''a.src''"
  by (simp_all add: scenario_env_def norm_path_def)

lemma ingest_file_frame:
  "ingest_file e root path out = map_sum id ((@) out) (ingest_file e root path [])"
  by (simp add: ingest_file_def ingest_tree_eq split: option.splits parse_result.splits)

lemma import_recs_symbol:
  "Symbol s \<in> set (import_recs m names) \<Longrightarrow> \<exists>sp \<in> set names. s = pseudo_module_sym sp"
  by (auto simp: import_recs_def mk_edge_def)

lemma import_symbol_id:
  assumes "is_import n" and "Symbol s \<in> set (emitted_by f m n st)"
  shows "sym_id s = make_id [S ''module'', S (name s), S (name s), I 1, I 1]"
proof (cases n)
  case (Import names)
  with assms obtain sp where "s = pseudo_module_sym sp"
    by (auto simp: emitted_by_eq dest: import_recs_symbol)
  then show ?thesis by (simp add: pseudo_module_sym_def)
next
  case (ImportFrom module level)
  with assms have "s = pseudo_module_sym (import_from_spec module level)"
    by (auto simp: emitted_by_eq mk_edge_def)
  then show ?thesis by (simp add: pseudo_module_sym_def)
qed (use assms in auto)

lemma variable_symbols_append:
  "variable_symbols (xs @ ys) = variable_symbols xs @ variable_symbols ys"
  by (induction xs rule: variable_symbols.induct) auto

lemma variable_symbols_concat:
  "(\<And>x. x \<in> set xs \<Longrightarrow> variable_symbols (g x) = []) \<Longrightarrow> variable_symbols (concat (map g xs)) = []"
  by (induction xs) (auto simp: variable_symbols_append)

lemma variable_symbols_methods: "variable_symbols (method_recs f k bs) = []"
  by (induction f k bs rule: method_recs.induct) (auto simp: mk_edge_def method_sym_def)

lemma assign_free_recs: "assign_free n \<Longrightarrow> variable_symbols (recs f m n) = []"
proof (induction n rule: assign_free.induct)
  case (2 nm p cs)
  then show ?case
    by (simp add: variable_symbols_concat mk_edge_def function_sym_def)
next
  case (3 nm p pre body post)
  then show ?case
    by (simp add: variable_symbols_concat variable_symbols_append variable_symbols_methods
          mk_edge_def class_sym_def)
next
  case (4 func rest)
  then show ?case
    by (auto simp: variable_symbols_concat variable_symbols_append call_recs_def call_fact_def
          split: option.splits)
qed (auto simp: variable_symbols_concat variable_symbols_append import_recs_def mk_edge_def
       pseudo_module_sym_def)

lemma import_recs_no_variables: "variable_symbols (import_recs m names) = []"
  by (induction names) (auto simp: import_recs_def mk_edge_def pseudo_module_sym_def)

lemma map_of_setdefault:
  "map_of (setdefault_append ni k v) k' =
     (if k' = k then Some (entries ni k @ [v]) else map_of ni k')"
  by (induction ni k v rule: setdefault_append.induct) (auto simp: entries_def)

lemma entries_setdefault:
  "entries (setdefault_append ni k v) k' = (if k' = k then entries ni k @ [v] else entries ni k')"
  by (simp add: entries_def map_of_setdefault)

lemma entries_apply_adds:
  "entries (apply_adds ni xs) k = entries ni k @ map snd (filter (\<lambda>kv. fst kv = k) xs)"
  by (induction ni xs rule: apply_adds.induct) (auto simp: entries_setdefault)

lemma method_recs_mem:
  "FunctionDef mname mp mcs \<in> set body \<Longrightarrow>
     Symbol (method_sym f k mname mp) \<in> set (method_recs f k body)
     \<and> mk_edge k ''member_of'' (sym_id (method_sym f k mname mp)) \<in> set (method_recs f k body)
     \<and> (mname, method_sym f k mname mp) \<in> set (method_adds f k body)"
  by (induction f k body rule: method_recs.induct) auto

lemma beta_run:
  "ingest_file beta_env ''example'' ''example/py/beta.py'' out
     = Inr (ingest_tree ''py/beta.py'' beta_tree out)"
  by (simp add: ingest_file_def beta_env_def norm_path_def)

lemma beta_records:
  "ingest_file beta_env ''example'' ''example/py/beta.py'' [] = Inr
     [Symbol (module_sym ''py/beta.py''),
      Symbol (pseudo_module_sym ''utils.''),
      mk_edge (sym_id (module_sym ''py/beta.py'')) ''import'' (sym_id (pseudo_module_sym ''utils.'')),
      Symbol (function_sym ''py/beta.py'' ''main'' (mk_pos 3 0 4 27)),
      mk_edge (sym_id (module_sym ''py/beta.py'')) ''defines''
        (sym_id (function_sym ''py/beta.py'' ''main'' (mk_pos 3 0 4 27))),
      call_fact ''print'' ''py/beta.py'' (sym_id (module_sym ''py/beta.py'')),
      call_fact ''log'' ''py/beta.py'' (sym_id (module_sym ''py/beta.py'')),
      call_fact ''greet'' ''py/beta.py'' (sym_id (module_sym ''py/beta.py'')),
      Symbol (function_sym ''py/beta.py'' ''log'' (mk_pos 6 0 7 24)),
      mk_edge (sym_id (module_sym ''py/beta.py'')) ''defines''
        (sym_id (function_sym ''py/beta.py'' ''log'' (mk_pos 6 0 7 24))),
      Symbol (class_sym ''py/beta.py'' ''Person'' (mk_pos 9 0 13 31)),
      mk_edge (sym_id (module_sym ''py/beta.py'')) ''defines''
        (sym_id (class_sym ''py/beta.py'' ''Person'' (mk_pos 9 0 13 31))),
      Symbol (method_sym ''py/beta.py'' (sym_id (class_sym ''py/beta.py'' ''Person'' (mk_pos 9 0 13 31)))
        ''__init__'' (mk_pos 10 4 11 24)),
      mk_edge (sym_id (class_sym ''py/beta.py'' ''Person'' (mk_pos 9 0 13 31))) ''member_of''
        (sym_id (method_sym ''py/beta.py''
           (sym_id (class_sym ''py/beta.py'' ''Person'' (mk_pos 9 0 13 31)))
           ''__init__'' (mk_pos 10 4 11 24))),
      Symbol (method_sym ''py/beta.py'' (sym_id (class_sym ''py/beta.py'' ''Person'' (mk_pos 9 0 13 31)))
        ''speak'' (mk_pos 12 4 13 31)),
      mk_edge (sym_id (class_sym ''py/beta.py'' ''Person'' (mk_pos 9 0 13 31))) ''member_of''
        (sym_id (method_sym ''py/beta.py''
           (sym_id (class_sym ''py/beta.py'' ''Person'' (mk_pos 9 0 13 31)))
           ''speak'' (mk_pos 12 4 13 31))),
      Symbol (function_sym ''py/beta.py'' ''__init__'' (mk_pos 10 4 11 24)),
      mk_edge (sym_id (module_sym ''py/beta.py'')) ''defines''
        (sym_id (function_sym ''py/beta.py'' ''__init__'' (mk_pos 10 4 11 24))),
      Symbol (function_sym ''py/beta.py'' ''speak'' (mk_pos 12 4 13 31)),
      mk_edge (sym_id (module_sym ''py/beta.py'')) ''defines''
        (sym_id (function_sym ''py/beta.py'' ''speak'' (mk_pos 12 4 13 31))),
      call_fact ''greet'' ''py/beta.py'' (sym_id (module_sym ''py/beta.py'')),
      NameIndex ''py/beta.py''
        [(''main'', [function_sym ''py/beta.py'' ''main'' (mk_pos 3 0 4 27)]),
         (''log'', [function_sym ''py/beta.py'' ''log'' (mk_pos 6 0 7 24)]),
         (''__init__'',
           [method_sym ''py/beta.py'' (sym_id (class_sym ''py/beta.py'' ''Person'' (mk_pos 9 0 13 31)))
              ''__init__'' (mk_pos 10 4 11 24),
            function_sym ''py/beta.py'' ''__init__'' (mk_pos 10 4 11 24)]),
         (''speak'',
           [method_sym ''py/beta.py'' (sym_id (class_sym ''py/beta.py'' ''Person'' (mk_pos 9 0 13 31)))
              ''speak'' (mk_pos 12 4 13 31),
            function_sym ''py/beta.py'' ''speak'' (mk_pos 12 4 13 31)])]]"
  by (simp add: beta_run ingest_tree_def beta_tree_def import_from_spec_def call_fact_def)

lemma range_of_missing_end:
  "end_lineno p = Missing \<Longrightarrow> end_col_offset p = Missing \<Longrightarrow>
     endLine (range_of p) = Some (startLine (range_of p))
     \<and> endCol (range_of p) = Some (startCol (range_of p))"
  by (simp add: range_of_def Let_def)

lemma range_of_present_end:
  "end_lineno p = Present a \<Longrightarrow> end_col_offset p = Present b \<Longrightarrow>
     endLine (range_of p) = a \<and> endCol (range_of p) = b"
  by (simp add: range_of_def Let_def)

lemma import_from_spec_order:
  "import_from_spec (Some md) (Some l) = md @ replicate (nat l) CHR ''.''"
  by (simp add: import_from_spec_def)

section \<open>The claims\<close>

text \<open>
  Claim C1, amended. For a file that is read and parsed, the stream that \<open>ingest_file\<close>
  appends starts with the module root symbol, whose id is the hash of
  \<open>('module', 'python', file, 1, 1)\<close>: the second part is the language tag, not the
  symbol's name. Every symbol record after it (function, class, method, variable and
  pseudo-module) has as id the hash of its own \<open>(kind, name, file, startLine, startCol)\<close>.
\<close>

theorem symbol_ids_hash_amended:
  assumes "read_file e path = Some text" and "ast_parse e text = Parsed tree"
  shows "\<exists>m rest. ingest_file e root path out = Inr (out @ Symbol m # rest)
           \<and> kind m = ''module'' \<and> name m = norm_path (relpath e path root)
           \<and> sym_id m = make_id [S ''module'', S ''python'', S (sym_file m), I 1, I 1]
           \<and> list_all fact_id_ok rest"
  using assms
  by (simp add: ingest_file_def ingest_tree_eq module_sym_def id_ok_recs)

text \<open>
  Claim C1, the amended statement at the scenario file \<open>proj/a.src\<close>.
\<close>

theorem symbol_ids_hash_witness:
  "\<exists>m rest. ingest_file scenario_env ''proj'' ''proj/a.src'' [] = Inr ([] @ Symbol m # rest)
           \<and> kind m = ''module''
           \<and> name m = norm_path (relpath scenario_env ''proj/a.src'' ''proj'')
           \<and> sym_id m = make_id [S ''module'', S ''python'', S (sym_file m), I 1, I 1]
           \<and> list_all fact_id_ok rest"
  by (rule symbol_ids_hash_amended [OF scenario_reads(1) scenario_reads(2)])

text \<open>
  Claim C1 as stated fails for the module root symbol. For \<open>a.src\<close> its id is the first
  16 hex digits of SHA-1 of \<open>modulepythona.src11\<close>, which is \<open>d0bb812cb4525269\<close>, while
  the tuple (kind, name, file, line, column) of that symbol hashes to \<open>7252925d61b1bfde\<close>.
\<close>

theorem root_id_counterexample:
  "\<not> list_all fact_id_ok (records_of (ingest_file scenario_env ''proj'' ''proj/a.src'' []))"
  by (simp add: scenario_run ingest_tree_eq id_of_tuple_def module_sym_def fixed_range_def
        id_root id_tuple)

text \<open>
  Claim C2, amended. A file at relative path \<open>a.src\<close> that holds one top-level function
  \<open>f\<close> and one class \<open>C\<close> with a single method \<open>m\<close>, and nothing else that emits,
  yields exactly these ten records in this order: the module symbol; the function symbol
  \<open>f\<close> and a \<open>defines\<close> edge from the module; the class symbol \<open>C\<close> and a
  \<open>defines\<close> edge from the module; the method symbol \<open>m\<close> with \<open>parentId\<close> the id of
  \<open>C\<close> and a \<open>member_of\<close> edge from \<open>C\<close>; then a function symbol \<open>m\<close> with a
  \<open>defines\<close> edge from the module, emitted when the traversal continues into the class
  body; and last the name index, with one entry under \<open>f\<close>, two entries under \<open>m\<close>
  (the method symbol, then the function symbol) and no entry for \<open>C\<close>.
\<close>

theorem scenario_records_amended:
  assumes "read_file e path = Some text"
    and "ast_parse e text = Parsed (Other [FunctionDef ''f'' pf fcs,
            ClassDef ''C'' pc pre [FunctionDef ''m'' pm mcs] post])"
    and "norm_path (relpath e path root) = ''a.src''"
    and "list_all silent fcs" "list_all silent mcs" "list_all silent pre" "list_all silent post"
  shows "ingest_file e root path [] = Inr
     [Symbol (module_sym ''a.src''),
      Symbol (function_sym ''a.src'' ''f'' pf),
      mk_edge (sym_id (module_sym ''a.src'')) ''defines'' (sym_id (function_sym ''a.src'' ''f'' pf)),
      Symbol (class_sym ''a.src'' ''C'' pc),
      mk_edge (sym_id (module_sym ''a.src'')) ''defines'' (sym_id (class_sym ''a.src'' ''C'' pc)),
      Symbol (method_sym ''a.src'' (sym_id (class_sym ''a.src'' ''C'' pc)) ''m'' pm),
      mk_edge (sym_id (class_sym ''a.src'' ''C'' pc)) ''member_of''
        (sym_id (method_sym ''a.src'' (sym_id (class_sym ''a.src'' ''C'' pc)) ''m'' pm)),
      Symbol (function_sym ''a.src'' ''m'' pm),
      mk_edge (sym_id (module_sym ''a.src'')) ''defines'' (sym_id (function_sym ''a.src'' ''m'' pm)),
      NameIndex ''a.src''
        [(''f'', [function_sym ''a.src'' ''f'' pf]),
         (''m'', [method_sym ''a.src'' (sym_id (class_sym ''a.src'' ''C'' pc)) ''m'' pm,
                  function_sym ''a.src'' ''m'' pm])]]"
  using assms by (simp add: ingest_file_def ingest_tree_eq silent_list)

text \<open>
  Claim C2, the amended statement at the scenario file, with the positions the parser
  reports for its text.
\<close>

theorem scenario_records_witness:
  "ingest_file scenario_env ''proj'' ''proj/a.src'' [] = Inr
     [Symbol (module_sym ''a.src''),
      Symbol (function_sym ''a.src'' ''f'' (mk_pos 1 0 2 8)),
      mk_edge (sym_id (module_sym ''a.src'')) ''defines''
        (sym_id (function_sym ''a.src'' ''f'' (mk_pos 1 0 2 8))),
      Symbol (class_sym ''a.src'' ''C'' (mk_pos 4 0 6 12)),
      mk_edge (sym_id (module_sym ''a.src'')) ''defines''
        (sym_id (class_sym ''a.src'' ''C'' (mk_pos 4 0 6 12))),
      Symbol (method_sym ''a.src'' (sym_id (class_sym ''a.src'' ''C'' (mk_pos 4 0 6 12))) ''m''
        (mk_pos 5 4 6 12)),
      mk_edge (sym_id (class_sym ''a.src'' ''C'' (mk_pos 4 0 6 12))) ''member_of''
        (sym_id (method_sym ''a.src'' (sym_id (class_sym ''a.src'' ''C'' (mk_pos 4 0 6 12))) ''m''
          (mk_pos 5 4 6 12))),
      Symbol (function_sym ''a.src'' ''m'' (mk_pos 5 4 6 12)),
      mk_edge (sym_id (module_sym ''a.src'')) ''defines''
        (sym_id (function_sym ''a.src'' ''m'' (mk_pos 5 4 6 12))),
      NameIndex ''a.src''
        [(''f'', [function_sym ''a.src'' ''f'' (mk_pos 1 0 2 8)]),
         (''m'', [method_sym ''a.src'' (sym_id (class_sym ''a.src'' ''C'' (mk_pos 4 0 6 12))) ''m''
                    (mk_pos 5 4 6 12),
                  function_sym ''a.src'' ''m'' (mk_pos 5 4 6 12)])]]"
  by (rule scenario_records_amended
        [OF scenario_reads(1) scenario_reads(2)[unfolded scenario_tree_def] scenario_reads(3)
            scenario_silent(1) scenario_silent(2) scenario_silent(3) scenario_silent(3)])

text \<open>
  Claim C2 as stated fails: it allows four symbol records and three edges and no more,
  and the scenario file yields five symbols and four edges.
\<close>

theorem scenario_counterexample:
  "\<not> scenario_counts (records_of (ingest_file scenario_env ''proj'' ''proj/a.src'' []))"
  by (simp add: scenario_run ingest_tree_eq scenario_tree_def scenario_counts_def mk_edge_def
        module_sym_def function_sym_def class_sym_def method_sym_def)

text \<open>
  Claim C3. Two runs of \<open>ingest_file\<close> on the same path, in environments that agree on
  the content of that file, on the parser and on the relative path, emit the same
  sequence of symbol ids (or both stop with the same uncaught exception), whatever else the
  file systems hold and whatever was written to the stream before each run.
\<close>

theorem ingest_deterministic:
  assumes "read_file e1 path = read_file e2 path"
    and "ast_parse e1 = ast_parse e2"
    and "relpath e1 path root = relpath e2 path root"
  shows "new_ids out1 (ingest_file e1 root path out1) = new_ids out2 (ingest_file e2 root path out2)"
proof -
  have same: "ingest_file e1 root path [] = ingest_file e2 root path []"
    unfolding ingest_file_def assms by (rule refl)
  have frame: "new_ids out (ingest_file e root path out) = new_ids [] (ingest_file e root path [])"
    for e out
    by (subst ingest_file_frame, cases "ingest_file e root path []") (simp_all add: new_ids_def)
  show ?thesis
    by (simp only: frame [of out1 e1] frame [of out2 e2] same)
qed

text \<open>
  Claim C3 at the scenario file: a run on an empty stream, and a run in another
  environment, whose other files differ, after a record of another file was written.
\<close>

theorem ingest_deterministic_witness:
  "new_ids [] (ingest_file scenario_env ''proj'' ''proj/a.src'' [])
     = new_ids [Symbol (module_sym ''b.py'')]
         (ingest_file other_env ''proj'' ''proj/a.src'' [Symbol (module_sym ''b.py'')])"
  by (rule ingest_deterministic) (simp_all add: scenario_env_def other_env_def)

text \<open>
  Claim C4. In the stream emitted for one file, the first record is the module symbol,
  every edge has as \<open>src\<close> and as \<open>dst\<close> the id of a symbol record that precedes it in
  the stream, and every call record carries the id of that module symbol as \<open>modId\<close>.
  (A file that is not read or not parsed emits the empty stream.)
\<close>

theorem edges_closed_calls_tagged:
  assumes "ingest_file e root path [] = Inr rs"
  shows "rs = [] \<or> (\<exists>m rest. rs = Symbol m # rest \<and> kind m = ''module''
           \<and> closed_from [] rs \<and> list_all (call_tagged (sym_id m)) rs)"
  using assms
  by (auto simp: ingest_file_def ingest_tree_eq module_sym_def closed_from_append closed_recs
        tagged_recs split: option.splits parse_result.splits)

text \<open>
  Claim C4 at the repository's example file \<open>example/py/beta.py\<close>, whose stream holds
  import, defines and member_of edges and four calls (\<open>beta_records\<close>).
\<close>

theorem edges_closed_calls_tagged_witness:
  "records_of (ingest_file beta_env ''example'' ''example/py/beta.py'' []) = [] \<or>
     (\<exists>m rest. records_of (ingest_file beta_env ''example'' ''example/py/beta.py'' []) = Symbol m # rest
        \<and> kind m = ''module''
        \<and> closed_from [] (records_of (ingest_file beta_env ''example'' ''example/py/beta.py'' []))
        \<and> list_all (call_tagged (sym_id m))
              (records_of (ingest_file beta_env ''example'' ''example/py/beta.py'' [])))"
  using edges_closed_calls_tagged [of beta_env "''example''" "''example/py/beta.py''"
          "ingest_tree ''py/beta.py'' beta_tree []"]
  by (simp add: beta_run)

text \<open>
  Claim C5. When reading the file fails, or the file is read and the parser reports a
  syntax error, \<open>ingest_file\<close> returns with the stream as it was: no record of any kind
  is emitted for the file.
\<close>

theorem failed_file_emits_nothing:
  assumes "read_file e path = None \<or>
           (\<exists>text. read_file e path = Some text \<and> ast_parse e text = SyntaxError)"
  shows "ingest_file e root path out = Inr out"
  using assms by (auto simp: ingest_file_def)

text \<open>
  Claim C5 at a path that cannot be read and at a file whose text does not parse.
\<close>

theorem failed_file_emits_nothing_witness:
  "ingest_file scenario_env ''proj'' ''proj/gone.py'' [Symbol (module_sym ''b.py'')]
     = Inr [Symbol (module_sym ''b.py'')]
   \<and> ingest_file scenario_env ''proj'' ''proj/bad.py'' [Symbol (module_sym ''b.py'')]
     = Inr [Symbol (module_sym ''b.py'')]"
proof
  have "read_file scenario_env ''proj/gone.py'' = None"
    by (simp add: scenario_env_def)
  then show "ingest_file scenario_env ''proj'' ''proj/gone.py'' [Symbol (module_sym ''b.py'')]
     = Inr [Symbol (module_sym ''b.py'')]"
    by (intro failed_file_emits_nothing) simp
  have "read_file scenario_env ''proj/bad.py'' = Some ''def (''
        \<and> ast_parse scenario_env ''def ('' = SyntaxError"
    by (simp add: scenario_env_def scenario_text_def)
  then show "ingest_file scenario_env ''proj'' ''proj/bad.py'' [Symbol (module_sym ''b.py'')]
     = Inr [Symbol (module_sym ''b.py'')]"
    by (intro failed_file_emits_nothing) blast
qed

text \<open>
  Claim C6 at \<open>from .utils import greet\<close> (module \<open>utils\<close>, level 1), the first line of
  the repository's example file. One pseudo-module symbol and one import edge are emitted,
  but the specifier is \<open>utils.\<close>: the level markers are put after the module path, not
  before it, so it is not the specifier \<open>.utils\<close> that the claim describes.
\<close>

theorem relative_import_spec_reversed:
  "emitted_by f m (ImportFrom (Some ''utils'') (Some 1)) st =
     [Symbol (pseudo_module_sym ''utils.''),
      mk_edge m ''import'' (sym_id (pseudo_module_sym ''utils.''))]
   \<and> name (pseudo_module_sym ''utils.'') = ''utils.''
   \<and> import_from_spec (Some ''utils'') (Some 1) \<noteq> replicate 1 CHR ''.'' @ ''utils''"
  by (simp add: emitted_by_eq import_from_spec_def pseudo_module_sym_def)

text \<open>
  Claim C7. Take any two import statements (direct or from-style), visited in any files,
  with any module ids and any streams, hence also in separate runs. Two pseudo-module
  symbols they emit for the same specifier have the same id, and that id is the hash of
  \<open>('module', specifier, specifier, 1, 1)\<close>: a function of the specifier alone.
\<close>

theorem pseudo_module_id_by_specifier:
  assumes "is_import n1" and "is_import n2"
    and "Symbol s1 \<in> set (emitted_by f1 m1 n1 st1)"
    and "Symbol s2 \<in> set (emitted_by f2 m2 n2 st2)"
    and "name s1 = name s2"
  shows "sym_id s1 = sym_id s2
         \<and> sym_id s1 = make_id [S ''module'', S (name s1), S (name s1), I 1, I 1]"
  using import_symbol_id [OF assms(1) assms(3)] import_symbol_id [OF assms(2) assms(4)] assms(5)
  by simp

text \<open>
  Claim C7 at a direct import in one file and a from-style import in another file that
  arrive at the same specifier.
\<close>

theorem pseudo_module_id_by_specifier_witness:
  "sym_id (pseudo_module_sym ''os.'') = sym_id (pseudo_module_sym (import_from_spec (Some ''os'') (Some 1)))
   \<and> sym_id (pseudo_module_sym ''os.'') =
       make_id [S ''module'', S (name (pseudo_module_sym ''os.'')), S (name (pseudo_module_sym ''os.'')), I 1, I 1]"
proof (rule pseudo_module_id_by_specifier)
  show "is_import (Import [''sys'', ''os.''])" by simp
  show "is_import (ImportFrom (Some ''os'') (Some 1))" by simp
  show "Symbol (pseudo_module_sym ''os.'')
          \<in> set (emitted_by ''a.py'' ''m1'' (Import [''sys'', ''os.'']) ([], []))"
    by (simp add: emitted_by_eq import_recs_def)
  show "Symbol (pseudo_module_sym (import_from_spec (Some ''os'') (Some 1)))
          \<in> set (emitted_by ''pkg/b.py'' ''m2'' (ImportFrom (Some ''os'') (Some 1))
                    ([Symbol (module_sym ''pkg/b.py'')], []))"
    by (simp add: emitted_by_eq)
  show "name (pseudo_module_sym ''os.'') = name (pseudo_module_sym (import_from_spec (Some ''os'') (Some 1)))"
    by (simp add: pseudo_module_sym_def import_from_spec_def)
qed

text \<open>
  Claim C8. For an assignment statement (its targets and its value are expressions, so
  they hold no assignment statement themselves): when the left-most target is a single
  identifier, exactly one variable symbol is emitted and it carries that identifier as
  name; when the left-most target is a tuple, an attribute or a subscript, no variable
  symbol is emitted.
\<close>

theorem assign_variable_filter:
  assumes "\<forall>t \<in> set targets. assign_free t" and "assign_free v"
  shows "(\<forall>vname p ts. targets = Name vname p # ts \<longrightarrow>
            (\<exists>s. variable_symbols (emitted_by f m (Assign targets v) st) = [s]
                  \<and> name s = vname \<and> kind s = ''variable''))
       \<and> ((\<exists>es ts. targets = Tuple es # ts) \<or> (\<exists>x a ts. targets = Attribute x a # ts)
            \<or> (\<exists>x y ts. targets = Subscript x y # ts) \<longrightarrow>
            variable_symbols (emitted_by f m (Assign targets v) st) = [])"
proof -
  have rest: "variable_symbols (concat (map (recs f m) targets)) = []"
    "variable_symbols (recs f m v) = []"
    using assms by (simp_all add: variable_symbols_concat assign_free_recs)
  show ?thesis
    using rest
    by (auto simp: emitted_by_eq variable_symbols_append mk_edge_def variable_sym_def)
qed

text \<open>
  Claim C8 at \<open>x = y = ...\<close> (one variable symbol, \<open>x\<close>) and at \<open>a, b = t\<close> (none).
\<close>

theorem assign_variable_filter_witness:
  "(\<exists>s. variable_symbols (emitted_by ''a.py'' ''m1''
           (Assign [Name ''x'' (mk_pos 1 0 1 1), Name ''y'' (mk_pos 1 4 1 5)] (Other [])) ([], [])) = [s]
         \<and> name s = ''x'' \<and> kind s = ''variable'')
   \<and> variable_symbols (emitted_by ''a.py'' ''m1''
           (Assign [Tuple [Name ''a'' (mk_pos 1 0 1 1), Name ''b'' (mk_pos 1 3 1 4)]]
              (Name ''t'' (mk_pos 1 7 1 8))) ([], [])) = []"
  using assign_variable_filter
          [of "[Name ''x'' (mk_pos 1 0 1 1), Name ''y'' (mk_pos 1 4 1 5)]" "Other []"
              "''a.py''" "''m1''" "([], [])"]
        assign_variable_filter
          [of "[Tuple [Name ''a'' (mk_pos 1 0 1 1), Name ''b'' (mk_pos 1 3 1 4)]]"
              "Name ''t'' (mk_pos 1 7 1 8)" "''a.py''" "''m1''" "([], [])"]
  by simp

text \<open>
  Claim C9 at a node at line 3, column offset 4, whose end attributes are present and hold
  \<open>None\<close>, which is how a node without an end position looks from Python 3.8 on (the
  source's comment says the end positions "may be None"). \<open>getattr\<close> returns the \<open>None\<close>
  and not its default, so the end of the range is \<open>None\<close> and does not collapse to the
  start (3, 5). The default is taken only when the attributes are missing
  (\<open>range_of_missing_end\<close>).
\<close>

theorem range_of_none_end:
  "range_of \<lparr>lineno = 3, col_offset = 4, end_lineno = Present None, end_col_offset = Present None\<rparr>
     = \<lparr>startLine = 3, startCol = 5, endLine = None, endCol = None\<rparr>"
  by (simp add: range_of_def)

text \<open>
  Claim C10. Every function declared directly in a class body is emitted twice by the
  visit of the class: as a method symbol whose \<open>parentId\<close> is the class id, with a
  \<open>member_of\<close> edge from the class, and as a function symbol with a \<open>defines\<close> edge from
  the module. The two ids are computed separately, from the kinds \<open>method\<close> and
  \<open>function\<close>, and both symbols are listed in the name index under the function's name.
\<close>

theorem class_function_emitted_twice:
  assumes "FunctionDef mname mp mcs \<in> set body"
  shows "Symbol (method_sym f (sym_id (class_sym f nm p)) mname mp)
           \<in> set (emitted_by f m (ClassDef nm p pre body post) st)
       \<and> parentId (method_sym f (sym_id (class_sym f nm p)) mname mp) = Some (sym_id (class_sym f nm p))
       \<and> mk_edge (sym_id (class_sym f nm p)) ''member_of''
             (sym_id (method_sym f (sym_id (class_sym f nm p)) mname mp))
           \<in> set (emitted_by f m (ClassDef nm p pre body post) st)
       \<and> Symbol (function_sym f mname mp) \<in> set (emitted_by f m (ClassDef nm p pre body post) st)
       \<and> mk_edge m ''defines'' (sym_id (function_sym f mname mp))
           \<in> set (emitted_by f m (ClassDef nm p pre body post) st)
       \<and> sym_id (method_sym f (sym_id (class_sym f nm p)) mname mp)
           = make_id [S ''method'', S mname, S f, I (lineno mp), I (col_offset mp + 1)]
       \<and> sym_id (function_sym f mname mp)
           = make_id [S ''function'', S mname, S f, I (lineno mp), I (col_offset mp + 1)]
       \<and> method_sym f (sym_id (class_sym f nm p)) mname mp
           \<in> set (entries (snd (visit f m (ClassDef nm p pre body post) st)) mname)
       \<and> function_sym f mname mp
           \<in> set (entries (snd (visit f m (ClassDef nm p pre body post) st)) mname)"
proof -
  let ?k = "sym_id (class_sym f nm p)"
  let ?b = "FunctionDef mname mp mcs"
  have meth: "Symbol (method_sym f ?k mname mp) \<in> set (method_recs f ?k body)"
    "mk_edge ?k ''member_of'' (sym_id (method_sym f ?k mname mp)) \<in> set (method_recs f ?k body)"
    "(mname, method_sym f ?k mname mp) \<in> set (method_adds f ?k body)"
    using method_recs_mem [OF assms] by blast+
  have "Symbol (function_sym f mname mp) \<in> set (recs f m ?b)"
    "mk_edge m ''defines'' (sym_id (function_sym f mname mp)) \<in> set (recs f m ?b)"
    "(mname, function_sym f mname mp) \<in> set (adds f ?b)"
    by simp_all
  with assms have fn: "Symbol (function_sym f mname mp) \<in> set (concat (map (recs f m) body))"
    "mk_edge m ''defines'' (sym_id (function_sym f mname mp)) \<in> set (concat (map (recs f m) body))"
    "(mname, function_sym f mname mp) \<in> set (concat (map (adds f) body))"
    by (auto intro!: bexI [where x = ?b])
  have idx: "(mname, y) \<in> set xs \<Longrightarrow> y \<in> set (entries (apply_adds ni xs) mname)" for y xs ni
    by (force simp: entries_apply_adds)
  show ?thesis
    using meth fn
    by (simp add: emitted_by_eq visit_eq idx method_sym_def function_sym_def)
qed

text \<open>
  Claim C10 at the method \<open>m\<close> of the scenario file.
\<close>

theorem class_function_emitted_twice_witness:
  "Symbol (method_sym ''a.src'' (sym_id (class_sym ''a.src'' ''C'' (mk_pos 4 0 6 12))) ''m'' (mk_pos 5 4 6 12))
     \<in> set (records_of (ingest_file scenario_env ''proj'' ''proj/a.src'' []))
   \<and> Symbol (function_sym ''a.src'' ''m'' (mk_pos 5 4 6 12))
     \<in> set (records_of (ingest_file scenario_env ''proj'' ''proj/a.src'' []))
   \<and> entries (snd (visit ''a.src'' ''mod'' (ClassDef ''C'' (mk_pos 4 0 6 12) []
            [FunctionDef ''m'' (mk_pos 5 4 6 12) [Other [Other []], Other []]] []) ([], []))) ''m''
       = [method_sym ''a.src'' (sym_id (class_sym ''a.src'' ''C'' (mk_pos 4 0 6 12))) ''m'' (mk_pos 5 4 6 12),
          function_sym ''a.src'' ''m'' (mk_pos 5 4 6 12)]"
  using class_function_emitted_twice
          [of "''m''" "mk_pos 5 4 6 12" "[Other [Other []], Other []]"
              "[FunctionDef ''m'' (mk_pos 5 4 6 12) [Other [Other []], Other []]]"
              "''a.src''" "''C''" "mk_pos 4 0 6 12" "''mod''" "[]" "[]" "([], [])"]
  by (simp add: scenario_run ingest_tree_eq scenario_tree_def visit_eq entries_def mk_edge_def)

end
